theory Spec2Isabelle
  imports Main "HOL-Library.Sublist"
begin

section \<open>The LLM conversation gateway of ai/llm.py\<close>

text \<open>
  A shallow embedding of \<^verbatim>\<open>ai/llm.py\<close>: the adapter resolver \<^verbatim>\<open>get_model\<close>, the
  \<^verbatim>\<open>Stub\<close> adapter and the \<^verbatim>\<open>OpenAI\<close> adapter with its token counter, its history
  truncation and its streaming generator. Exceptions are values of a sum type, a
  generator is the trace of what it does when it is consumed to the end, and the Python
  list objects the truncation works on live in an explicit store, since the code's own
  comment speaks about which list object is shared with which.
\<close>

subsection \<open>Data model\<close>

text \<open>\<^verbatim>\<open>class Message(t.TypedDict)\<close>: a role and a content.\<close>

datatype role = User | System | Assistant

record message =
  role :: role
  content :: string

text \<open>The exceptions the code and the Python operations it uses can raise.\<close>

datatype error = ValueError | TypeError | IndexError | TransportError

text \<open>
  \<^verbatim>\<open>django.conf.settings\<close>, as far as the module reads it. An attribute that is not
  set is \<open>None\<close>: the code reads each one with \<^verbatim>\<open>getattr(..., default)\<close> or guards
  it with \<^verbatim>\<open>hasattr\<close>.
\<close>

record settings =
  LLM_MODEL :: "string option"
  OPENAI_MAX_TOKENS :: "int option"
  OPENAI_MODEL :: "string option"
  OPENAI_KEY :: "string option"

subsection \<open>The resolver and the stub adapter\<close>

datatype adapter = Stub | OpenAI

text \<open>
  \<^verbatim>\<open>get_model\<close>: two \<^verbatim>\<open>if\<close> statements with a \<^verbatim>\<open>return\<close> each; a value that
  matches neither falls off the end of the function, which in Python returns
  \<^verbatim>\<open>None\<close>.
\<close>

definition get_model :: "settings \<Rightarrow> adapter option" where
  "get_model s =
     (let model = (case LLM_MODEL s of None \<Rightarrow> ''Stub'' | Some v \<Rightarrow> v)
      in if model = ''Stub'' then Some Stub
         else if model = ''OpenAI'' then Some OpenAI
         else None)"

text \<open>
  What consuming a generator to its end does, in order: the calls it makes to the outside
  and the chunks it yields; and how it ends, \<open>None\<close> for a normal return and
  \<open>Some e\<close> for the exception \<open>e\<close> leaving the generator.
\<close>

datatype event =
    Sleep nat
  | Yield string
  | NewClient string int
  | CreateStream "message list" string

record run =
  trace :: "event list"
  outcome :: "error option"

fun chunks_of :: "event list \<Rightarrow> string list" where
  "chunks_of [] = []"
| "chunks_of (Yield c # es) = c # chunks_of es"
| "chunks_of (e # es) = chunks_of es"

text \<open>\<^verbatim>\<open>Stub.make_response\<close>: the three arguments are never read.\<close>

definition Stub_make_response :: "string \<Rightarrow> message list \<Rightarrow> string \<Rightarrow> run" where
  "Stub_make_response ctx history prompt =
     \<lparr>trace = [Sleep 1, Yield ''Hello '', Sleep 2, Yield ''World!''], outcome = None\<rparr>"

subsection \<open>The properties of the OpenAI adapter\<close>

definition max_tokens :: "settings \<Rightarrow> int" where
  "max_tokens s = (case OPENAI_MAX_TOKENS s of None \<Rightarrow> 8000 | Some n \<Rightarrow> n)"

definition model :: "settings \<Rightarrow> string" where
  "model s = (case OPENAI_MODEL s of None \<Rightarrow> ''gpt-4.1-mini'' | Some m \<Rightarrow> m)"

definition api_key :: "settings \<Rightarrow> error + string" where
  "api_key s = (case OPENAI_KEY s of Some k \<Rightarrow> Inr k | None \<Rightarrow> Inl ValueError)"

subsection \<open>The token counter\<close>

text \<open>
  The tokenizer library is not part of the repository, so it is a parameter:
  \<^verbatim>\<open>tiktoken.get_encoding(name)\<close> either raises or gives an encoding, whose
  \<^verbatim>\<open>encode\<close> maps a text to its list of tokens.
\<close>

type_synonym encoding = "string \<Rightarrow> nat list"
type_synonym tiktoken = "string \<Rightarrow> error + encoding"

text \<open>
  The Python objects that the \<^verbatim>\<open>return\<close> expression of \<^verbatim>\<open>_count_token\<close> handles:
  integers, and the generator object of a generator expression, given by the integers it
  would produce if it were iterated. \<open>py_add\<close> is Python's binary \<^verbatim>\<open>+\<close>, which is
  defined between two integers and raises \<^verbatim>\<open>TypeError\<close> when an operand is a
  generator; \<open>py_sum\<close> is the builtin \<^verbatim>\<open>sum\<close>, which iterates its argument and
  raises \<^verbatim>\<open>TypeError\<close> on an integer.
\<close>

datatype pyobj = PyInt int | PyGenerator "int list"

fun py_add :: "pyobj \<Rightarrow> pyobj \<Rightarrow> error + pyobj" where
  "py_add (PyInt a) (PyInt b) = Inr (PyInt (a + b))"
| "py_add x y = Inl TypeError"

fun py_sum :: "pyobj \<Rightarrow> error + int" where
  "py_sum (PyGenerator xs) = Inr (sum_list xs)"
| "py_sum (PyInt n) = Inl TypeError"

text \<open>
  \<^verbatim>\<open>OpenAI._count_token\<close>. The encoding is asked for under the name
  \<^verbatim>\<open>"cli100k_base"\<close>. The returned expression is
  \<^verbatim>\<open>sum((tokens_per_message + len(encoding.encode(m["content"])) for m in messages) + priming)\<close>:
  the parenthesis opened before \<^verbatim>\<open>tokens_per_message\<close> closes after
  \<^verbatim>\<open>messages\<close>, so the operands of the last \<^verbatim>\<open>+\<close> are the generator object and
  \<^verbatim>\<open>priming\<close>, and \<^verbatim>\<open>sum\<close> is applied to what that addition gives.
\<close>

definition count_token :: "tiktoken \<Rightarrow> message list \<Rightarrow> error + int" where
  "count_token tk messages =
     (case tk ''cli100k_base'' of
        Inl e \<Rightarrow> Inl e
      | Inr encoding \<Rightarrow>
          (let tokens_per_message = 3;
               priming = 3
           in case py_add
                     (PyGenerator
                        (map (\<lambda>m. tokens_per_message + int (length (encoding (content m))))
                           messages))
                     (PyInt priming) of
                Inl e \<Rightarrow> Inl e
              | Inr v \<Rightarrow> py_sum v))"

text \<open>
  The count as the specification words it: the per-message overhead of 3 plus the
  tokenized length of the content, summed over the messages, plus the priming constant 3.
\<close>

definition count_token_spec :: "encoding \<Rightarrow> message list \<Rightarrow> int" where
  "count_token_spec encoding messages =
     sum_list (map (\<lambda>m. 3 + int (length (encoding (content m)))) messages) + 3"

text \<open>A tokenizer for running examples: every name is known, one token per character.\<close>

definition char_encoding :: encoding where
  "char_encoding txt = map of_char txt"

definition char_tiktoken :: tiktoken where
  "char_tiktoken name = Inr char_encoding"

text \<open>
  A tokenizer library that knows the encoding names of the real one and raises
  \<^verbatim>\<open>ValueError\<close> for any other name.
\<close>

definition strict_tiktoken :: tiktoken where
  "strict_tiktoken name =
     (if name \<in> set [''gpt2'', ''r50k_base'', ''p50k_base'', ''p50k_edit'', ''cl100k_base'',
                      ''o200k_base'']
      then Inr char_encoding else Inl ValueError)"

subsection \<open>List objects\<close>

text \<open>
  A Python list is an object: two names can stand for one list, and \<^verbatim>\<open>pop\<close>
  changes the object for every name that stands for it. The store maps a reference to
  the elements its list holds now; \<open>fresh\<close> is the next unused reference.
\<close>

type_synonym ref = nat

record heap =
  objs :: "ref \<Rightarrow> message list"
  fresh :: ref

text \<open>A new list object: a slice \<^verbatim>\<open>xs[:]\<close>, a concatenation, a list display.\<close>

definition new_list :: "message list \<Rightarrow> heap \<Rightarrow> ref \<times> heap" where
  "new_list xs h = (fresh h, \<lparr>objs = (objs h)(fresh h := xs), fresh = Suc (fresh h)\<rparr>)"

text \<open>\<^verbatim>\<open>r.pop(0)\<close> removes the first element in place, and raises on an empty list.\<close>

definition pop0 :: "ref \<Rightarrow> heap \<Rightarrow> error + heap" where
  "pop0 r h =
     (case objs h r of
        [] \<Rightarrow> Inl IndexError
      | x # xs \<Rightarrow> Inr (h\<lparr>objs := (objs h)(r := xs)\<rparr>))"

subsection \<open>History truncation\<close>

text \<open>
  The \<^verbatim>\<open>while\<close> loop of \<^verbatim>\<open>_truncate_history\<close>. \<open>count\<close> is the method
  \<^verbatim>\<open>self._count_token\<close>, \<open>limit\<close> the property \<^verbatim>\<open>self.max_tokens\<close>,
  \<open>messages\<close> and \<open>trimmed_history\<close> the references the two local names hold. Each
  test counts the list that \<open>messages\<close> refers to; the body pops from the list that
  \<open>trimmed_history\<close> refers to.
\<close>

function truncate_loop ::
  "(message list \<Rightarrow> error + int) \<Rightarrow> int \<Rightarrow> ref \<Rightarrow> ref \<Rightarrow> heap \<Rightarrow> (error + ref) \<times> heap" where
  "truncate_loop count limit messages trimmed_history h =
     (case count (objs h messages) of
        Inl e \<Rightarrow> (Inl e, h)
      | Inr n \<Rightarrow>
          if n \<ge> limit then
            (if length (objs h trimmed_history) = 0 then
               (let (r, h') = new_list [] h in (Inr r, h'))
             else
               (case pop0 trimmed_history h of
                  Inl e \<Rightarrow> (Inl e, h)
                | Inr h' \<Rightarrow> truncate_loop count limit messages trimmed_history h'))
          else (Inr trimmed_history, h))"
  by pat_completeness auto
termination
  by (relation "measure (\<lambda>(count, limit, messages, trimmed_history, h).
                  length (objs h trimmed_history))")
     (auto simp: pop0_def split: list.splits)

text \<open>
  The body of \<^verbatim>\<open>_truncate_history\<close> before the loop: the two messages, the slice
  \<^verbatim>\<open>history[:]\<close>, and the concatenation
  \<^verbatim>\<open>[system_msg] + trimmed_history + [user_msg]\<close>, which is a list object of its own.
\<close>

definition truncate_with ::
  "(message list \<Rightarrow> error + int) \<Rightarrow> int \<Rightarrow> string \<Rightarrow> ref \<Rightarrow> string \<Rightarrow> heap
     \<Rightarrow> (error + ref) \<times> heap" where
  "truncate_with count limit ctx history prompt h =
     (let system_msg = \<lparr>role = System, content = ctx\<rparr>;
          user_msg = \<lparr>role = User, content = prompt\<rparr>;
          (trimmed_history, h1) = new_list (objs h history) h;
          (messages, h2) = new_list ([system_msg] @ objs h1 trimmed_history @ [user_msg]) h1
      in truncate_loop count limit messages trimmed_history h2)"

text \<open>\<^verbatim>\<open>OpenAI._truncate_history\<close>: the counter and the limit are the class's own.\<close>

definition truncate_history ::
  "tiktoken \<Rightarrow> settings \<Rightarrow> string \<Rightarrow> ref \<Rightarrow> string \<Rightarrow> heap \<Rightarrow> (error + ref) \<times> heap" where
  "truncate_history tk s ctx history prompt h =
     truncate_with (count_token tk) (max_tokens s) ctx history prompt h"

subsection \<open>The streaming generator\<close>

text \<open>
  What the provider streams back is not part of the repository either: a unit of the
  stream has a list of choices, a choice has a delta or \<^verbatim>\<open>None\<close>, a delta has a
  content or \<^verbatim>\<open>None\<close>.
\<close>

record delta =
  delta_content :: "string option"

record choice =
  choice_delta :: "delta option"

type_synonym chunk = "choice list"

text \<open>
  The provider: the request either raises or opens a stream that delivers a finite list
  of units.
\<close>

type_synonym provider = "message list \<Rightarrow> string \<Rightarrow> error + chunk list"

text \<open>
  The \<^verbatim>\<open>for\<close> loop of \<^verbatim>\<open>make_response\<close> over the units: \<^verbatim>\<open>choices[0]\<close> raises
  on an empty list, and \<^verbatim>\<open>if delta and delta.content\<close> lets through a delta that is
  there with a content that is there and not the empty string.
\<close>

fun consume :: "chunk list \<Rightarrow> run" where
  "consume [] = \<lparr>trace = [], outcome = None\<rparr>"
| "consume ([] # units) = \<lparr>trace = [], outcome = Some IndexError\<rparr>"
| "consume ((c # cs) # units) =
     (case choice_delta c of
        None \<Rightarrow> consume units
      | Some d \<Rightarrow>
          (case delta_content d of
             None \<Rightarrow> consume units
           | Some txt \<Rightarrow>
               if txt = [] then consume units
               else (let r = consume units in r\<lparr>trace := Yield txt # trace r\<rparr>)))"

text \<open>
  \<^verbatim>\<open>OpenAI.make_response\<close>, consumed to its end, with \<open>count\<close> for
  \<^verbatim>\<open>self._count_token\<close>: the key is read while the arguments of
  \<^verbatim>\<open>openai.Client\<close> are evaluated, then the history is truncated, then the request is
  made with a new list \<^verbatim>\<open>[system_msg, *trimmed_history, user_msg]\<close>.
\<close>

definition make_response_with ::
  "(message list \<Rightarrow> error + int) \<Rightarrow> settings \<Rightarrow> provider \<Rightarrow> string \<Rightarrow> ref \<Rightarrow> string \<Rightarrow> heap
     \<Rightarrow> run \<times> heap" where
  "make_response_with count s remote ctx history prompt h =
     (case api_key s of
        Inl e \<Rightarrow> (\<lparr>trace = [], outcome = Some e\<rparr>, h)
      | Inr key \<Rightarrow>
          (let client = NewClient key (60 * 4);
               system_msg = \<lparr>role = System, content = ctx\<rparr>;
               user_msg = \<lparr>role = User, content = prompt\<rparr>
           in case truncate_with count (max_tokens s) ctx history prompt h of
                (Inl e, h1) \<Rightarrow> (\<lparr>trace = [client], outcome = Some e\<rparr>, h1)
              | (Inr trimmed_history, h1) \<Rightarrow>
                  (let (messages, h2) =
                         new_list ([system_msg] @ objs h1 trimmed_history @ [user_msg]) h1;
                       request = CreateStream (objs h2 messages) (model s)
                   in case remote (objs h2 messages) (model s) of
                        Inl e \<Rightarrow> (\<lparr>trace = [client, request], outcome = Some e\<rparr>, h2)
                      | Inr units \<Rightarrow>
                          (let r = consume units
                           in (r\<lparr>trace := [client, request] @ trace r\<rparr>, h2)))))"

definition make_response ::
  "tiktoken \<Rightarrow> settings \<Rightarrow> provider \<Rightarrow> string \<Rightarrow> ref \<Rightarrow> string \<Rightarrow> heap \<Rightarrow> run \<times> heap" where
  "make_response tk s remote ctx history prompt h =
     make_response_with (count_token tk) s remote ctx history prompt h"

subsection \<open>Reading results, and inputs for running the code\<close>

text \<open>The list a call returned, read from the store the call left behind.\<close>

fun returned :: "(error + ref) \<times> heap \<Rightarrow> error + message list" where
  "returned (Inl e, h) = Inl e"
| "returned (Inr r, h) = Inr (objs h r)"

text \<open>
  The text delta a unit carries, if any: what \<^verbatim>\<open>choices[0].delta.content\<close> gives
  when each step of the path is there.
\<close>

fun unit_text :: "chunk \<Rightarrow> string option" where
  "unit_text [] = None"
| "unit_text (c # cs) = (case choice_delta c of None \<Rightarrow> None | Some d \<Rightarrow> delta_content d)"

text \<open>
  Settings that select the OpenAI adapter and hold a key, with the defaults for the rest;
  a store in which the caller's history is the list at reference 0; a unit with one
  choice that carries a text; a provider whose stream delivers five units, the third with
  an empty delta.
\<close>

definition demo_settings :: settings where
  "demo_settings =
     \<lparr>LLM_MODEL = Some ''OpenAI'', OPENAI_MAX_TOKENS = None, OPENAI_MODEL = None,
      OPENAI_KEY = Some ''sk-demo''\<rparr>"

definition caller_heap :: "message list \<Rightarrow> heap" where
  "caller_heap history = \<lparr>objs = (\<lambda>r. [])(0 := history), fresh = 1\<rparr>"

definition text_unit :: "string \<Rightarrow> chunk" where
  "text_unit txt = [\<lparr>choice_delta = Some \<lparr>delta_content = Some txt\<rparr>\<rparr>]"

definition five_units :: provider where
  "five_units messages name =
     Inr [text_unit ''The '', text_unit ''answer '', text_unit [], text_unit ''is '',
          text_unit ''42'']"

section \<open>Theorems\<close>

subsection \<open>The counter never returns\<close>

lemma count_token_raises:
  "count_token tk ms = (case tk ''cli100k_base'' of Inl e \<Rightarrow> Inl e | Inr enc \<Rightarrow> Inl TypeError)"
  by (simp add: count_token_def split: sum.split)

lemma count_token_isl: "isl (count_token tk ms)"
  by (simp add: count_token_raises split: sum.split)

subsection \<open>The truncation loop, for any counter\<close>

text \<open>
  What the loop does with a counter that is a function of the list it is given: when the
  counter raises, the loop raises; when the first count is under the limit, the working
  copy is returned as it is; otherwise every later test counts the same list again, the
  working copy is emptied element by element, and a new empty list is returned.
\<close>

declare truncate_loop.simps [simp del]

lemma truncate_loop_raise:
  "count (objs h m) = Inl e \<Longrightarrow> truncate_loop count B m t h = (Inl e, h)"
  by (subst truncate_loop.simps) simp

lemma truncate_loop_fits:
  "count (objs h m) = Inr n \<Longrightarrow> n < B \<Longrightarrow> truncate_loop count B m t h = (Inr t, h)"
  by (subst truncate_loop.simps) simp

lemma truncate_loop_drain:
  "count (objs h m) = Inr n \<Longrightarrow> B \<le> n \<Longrightarrow> m \<noteq> t \<Longrightarrow>
   truncate_loop count B m t h =
     (Inr (fresh h), \<lparr>objs = (objs h)(t := [], fresh h := []), fresh = Suc (fresh h)\<rparr>)"
proof (induction "objs h t" arbitrary: h)
  case Nil
  then have "(objs h)(t := []) = objs h"
    by (simp add: fun_upd_idem)
  with Nil show ?case
    by (subst truncate_loop.simps) (simp add: new_list_def)
next
  case (Cons x xs)
  let ?h' = "h\<lparr>objs := (objs h)(t := xs)\<rparr>"
  have pop: "pop0 t h = Inr ?h'"
    using Cons.hyps(2) [symmetric] by (simp add: pop0_def)
  have "xs = objs ?h' t" by simp
  moreover have "count (objs ?h' m) = Inr n" using Cons.prems by simp
  ultimately have IH: "truncate_loop count B m t ?h' =
     (Inr (fresh ?h'), \<lparr>objs = (objs ?h')(t := [], fresh ?h' := []), fresh = Suc (fresh ?h')\<rparr>)"
    using Cons.hyps(1) Cons.prems by blast
  have "truncate_loop count B m t h = truncate_loop count B m t ?h'"
    using Cons.prems Cons.hyps(2) [symmetric] pop
    by (subst truncate_loop.simps) simp
  with IH show ?case by simp
qed

lemma truncate_with_returned:
  "returned (truncate_with count B ctx a p h) =
     (case count ([\<lparr>role = System, content = ctx\<rparr>] @ objs h a @ [\<lparr>role = User, content = p\<rparr>]) of
        Inl e \<Rightarrow> Inl e
      | Inr n \<Rightarrow> if B \<le> n then Inr [] else Inr (objs h a))"
  apply (simp add: truncate_with_def new_list_def split: sum.split)
  apply (auto simp: truncate_loop_raise truncate_loop_fits truncate_loop_drain)
  done

lemma truncate_with_frame:
  "r < fresh h \<Longrightarrow> objs (snd (truncate_with count B ctx a p h)) r = objs h r"
  apply (cases "count ([\<lparr>role = System, content = ctx\<rparr>] @ objs h a @ [\<lparr>role = User, content = p\<rparr>])")
  apply (simp_all add: truncate_with_def new_list_def  truncate_loop_raise)
  subgoal for n
    apply (cases "B \<le> n")
    apply (simp_all add: truncate_loop_fits truncate_loop_drain)
    done
  done

lemma truncate_with_fresh:
  "fresh h \<le> fresh (snd (truncate_with count B ctx a p h))"
  apply (cases "count ([\<lparr>role = System, content = ctx\<rparr>] @ objs h a @ [\<lparr>role = User, content = p\<rparr>])")
  apply (simp_all add: truncate_with_def new_list_def  truncate_loop_raise)
  subgoal for n
    apply (cases "B \<le> n")
    apply (simp_all add: truncate_loop_fits truncate_loop_drain)
    done
  done


text \<open>
  So, for any counter, a list that the truncation returns is the whole history or the
  empty list, hence a suffix of the history; it is empty or the counter puts it, between
  the two messages, under the limit; and with a counter that never raises, truncating a
  result again gives it back.
\<close>

lemma truncate_with_all_or_nothing:
  "returned (truncate_with count B ctx a p h) = Inr r \<Longrightarrow> r = objs h a \<or> r = []"
  by (auto simp: truncate_with_returned split: sum.splits if_splits)

lemma truncate_with_suffix:
  "returned (truncate_with count B ctx a p h) = Inr r \<Longrightarrow> suffix r (objs h a)"
  by (auto dest: truncate_with_all_or_nothing)

lemma truncate_with_fits_or_empty:
  "returned (truncate_with count B ctx a p h) = Inr r \<Longrightarrow>
   r = [] \<or>
   (\<exists>n. count ([\<lparr>role = System, content = ctx\<rparr>] @ r @ [\<lparr>role = User, content = p\<rparr>]) = Inr n
        \<and> n < B)"
  by (auto simp: truncate_with_returned split: sum.splits if_splits)

lemma truncate_with_idempotent:
  "returned (truncate_with (\<lambda>ms. Inr (f ms)) B ctx a p h) = Inr r \<Longrightarrow> objs h' b = r \<Longrightarrow>
   returned (truncate_with (\<lambda>ms. Inr (f ms)) B ctx b p h') = Inr r"
  by (auto simp: truncate_with_returned split: if_splits)

subsection \<open>The streaming loop\<close>

lemma chunks_of_append: "chunks_of (xs @ ys) = chunks_of xs @ chunks_of ys"
  by (induction xs rule: chunks_of.induct) simp_all

lemma consume_chunks:
  "[] \<notin> set units \<Longrightarrow>
   chunks_of (trace (consume units)) = filter (\<lambda>t. t \<noteq> []) (List.map_filter unit_text units)
   \<and> outcome (consume units) = None"
  by (induction units rule: consume.induct)
     (auto simp: List.map_filter_simps Let_def split: option.splits)

lemma make_response_with_chunks:
  assumes "api_key s = Inr key"
    and "count ([\<lparr>role = System, content = ctx\<rparr>] @ objs h a @ [\<lparr>role = User, content = p\<rparr>]) = Inr n"
    and "remote ([\<lparr>role = System, content = ctx\<rparr>] @
                 (if max_tokens s \<le> n then [] else objs h a) @
                 [\<lparr>role = User, content = p\<rparr>]) (model s) = Inr units"
    and "[] \<notin> set units"
  shows "chunks_of (trace (fst (make_response_with count s remote ctx a p h))) =
           filter (\<lambda>t. t \<noteq> []) (List.map_filter unit_text units)
         \<and> outcome (fst (make_response_with count s remote ctx a p h)) = None"
proof -
  obtain res h1 where tw: "truncate_with count (max_tokens s) ctx a p h = (res, h1)"
    by (cases "truncate_with count (max_tokens s) ctx a p h") auto
  have "returned (res, h1) = (if max_tokens s \<le> n then Inr [] else Inr (objs h a))"
    using truncate_with_returned [of count "max_tokens s" ctx a p h] assms(2) tw by simp
  then obtain r where r: "res = Inr r" "objs h1 r = (if max_tokens s \<le> n then [] else objs h a)"
    by (cases res) (auto split: if_splits)
  show ?thesis
    using assms(1,3,4) tw r consume_chunks [of units]
    by (simp add: make_response_with_def new_list_def Let_def)
qed

lemma make_response_with_frame:
  "r < fresh h \<Longrightarrow> objs (snd (make_response_with count s remote ctx a p h)) r = objs h r"
proof -
  assume r: "r < fresh h"
  obtain res h1 where tw: "truncate_with count (max_tokens s) ctx a p h = (res, h1)"
    by (cases "truncate_with count (max_tokens s) ctx a p h") auto
  have f1: "objs h1 r = objs h r" and f2: "fresh h \<le> fresh h1"
    using truncate_with_frame [OF r, of count "max_tokens s" ctx a p]
          truncate_with_fresh [of h count "max_tokens s" ctx a p] tw by simp_all
  show ?thesis
    using tw f1 f2 r
    by (auto simp: make_response_with_def new_list_def Let_def split: sum.splits)
qed

subsection \<open>The adapter's own counter in the truncation and in the generator\<close>

text \<open>
  With \<^verbatim>\<open>self._count_token\<close> bound to the class's own method, the first test of the
  loop raises, whatever the tokenizer library does: \<^verbatim>\<open>_truncate_history\<close> returns
  nothing, and \<^verbatim>\<open>make_response\<close> ends after it has built the client, before it
  makes the request.
\<close>

lemma truncate_history_raises:
  "fst (truncate_history tk s ctx a p h) =
     (case tk ''cli100k_base'' of Inl e \<Rightarrow> Inl e | Inr enc \<Rightarrow> Inl TypeError)"
  by (simp add: truncate_history_def truncate_with_def new_list_def truncate_loop_raise
        count_token_raises split: sum.split)

lemma truncate_history_isl: "isl (fst (truncate_history tk s ctx a p h))"
  by (simp add: truncate_history_raises split: sum.split)

lemma returned_isl: "isl (fst x) \<Longrightarrow> isl (returned x)"
  by (cases x rule: returned.cases) simp_all

lemma returned_not_Inr: "isl (fst x) \<Longrightarrow> returned x \<noteq> Inr xs"
  by (cases x rule: returned.cases) simp_all


subsection \<open>With a counter that returns\<close>

text \<open>
  The same loop and the same generator, run with the count the specification describes
  (one token per character) in place of the class's own method. A history that is over
  the limit comes back empty, not as its newest messages; the five units of the example
  stream give four chunks.
\<close>

lemma truncate_with_spec_counter_keeps:
  "returned (truncate_with (\<lambda>ms. Inr (count_token_spec char_encoding ms)) 8000 ''ctx'' 0 ''bye''
      (caller_heap [\<lparr>role = User, content = ''hi''\<rparr>, \<lparr>role = Assistant, content = ''hello''\<rparr>]))
   = Inr [\<lparr>role = User, content = ''hi''\<rparr>, \<lparr>role = Assistant, content = ''hello''\<rparr>]"
  by (simp add: truncate_with_returned caller_heap_def count_token_spec_def char_encoding_def)

lemma truncate_with_spec_counter_drains:
  "returned (truncate_with (\<lambda>ms. Inr (count_token_spec char_encoding ms)) 30 ''ctx'' 0 ''bye''
      (caller_heap [\<lparr>role = User, content = ''hi''\<rparr>, \<lparr>role = Assistant, content = ''hello''\<rparr>,
                    \<lparr>role = User, content = ''more''\<rparr>]))
   = Inr []"
  by (simp add: truncate_with_returned caller_heap_def count_token_spec_def char_encoding_def)

lemma make_response_with_spec_counter_five_units:
  "chunks_of (trace (fst (make_response_with (\<lambda>ms. Inr (count_token_spec char_encoding ms))
       demo_settings five_units ''ctx'' 0 ''hi'' (caller_heap []))))
   = [''The '', ''answer '', ''is '', ''42'']"
  using make_response_with_chunks [of demo_settings "''sk-demo''"
      "\<lambda>ms. Inr (count_token_spec char_encoding ms)" "''ctx''" "caller_heap []" 0 "''hi''" _
      five_units]
  by (simp add: demo_settings_def api_key_def five_units_def text_unit_def
        List.map_filter_simps)

section \<open>The claims\<close>

text \<open>
  Claim C1: for every context, history, prompt and positive budget, the history that
  \<^verbatim>\<open>_truncate_history\<close> returns, put back between the context message and the prompt
  message, has an estimated token count strictly under the budget, or is empty.
  The code at a history of two short messages under the default budget of 8000: it
  returns no history, for any tokenizer library, because the first test of the loop
  raises in \<^verbatim>\<open>_count_token\<close>. By the count the specification describes, with one
  token per character, the three parts together cost 28 tokens, so the claim expects the
  history back.
\<close>

theorem truncate_history_under_budget_raises:
  "isl (returned (truncate_history tk demo_settings ''ctx'' 0 ''bye''
          (caller_heap [\<lparr>role = User, content = ''hi''\<rparr>,
                        \<lparr>role = Assistant, content = ''hello''\<rparr>])))
   \<and> count_token_spec char_encoding
         ([\<lparr>role = System, content = ''ctx''\<rparr>] @
          [\<lparr>role = User, content = ''hi''\<rparr>, \<lparr>role = Assistant, content = ''hello''\<rparr>] @
          [\<lparr>role = User, content = ''bye''\<rparr>]) = 28
   \<and> max_tokens demo_settings = 8000"
  by (simp add: returned_isl truncate_history_isl count_token_spec_def char_encoding_def
        max_tokens_def demo_settings_def)

text \<open>
  Claim C2: for every list of messages \<^verbatim>\<open>_count_token\<close> returns the sum over the
  messages of 3 plus the tokenized length of the content, plus 3, and raises nothing.
  The code at the list of the one message \<^verbatim>\<open>{"role": "user", "content": "hi"}\<close>: it
  raises for any tokenizer library; \<^verbatim>\<open>ValueError\<close> with a library that does not know
  the name \<^verbatim>\<open>"cli100k_base"\<close>, and \<^verbatim>\<open>TypeError\<close> from adding the generator and the
  integer with a library that knows it. The count the claim describes is 8 here.
\<close>

theorem count_token_fails:
  "isl (count_token tk [\<lparr>role = User, content = ''hi''\<rparr>])
   \<and> count_token strict_tiktoken [\<lparr>role = User, content = ''hi''\<rparr>] = Inl ValueError
   \<and> count_token char_tiktoken [\<lparr>role = User, content = ''hi''\<rparr>] = Inl TypeError
   \<and> count_token_spec char_encoding [\<lparr>role = User, content = ''hi''\<rparr>] = 8"
proof (intro conjI)
  show "isl (count_token tk [\<lparr>role = User, content = ''hi''\<rparr>])"
    by (rule count_token_isl)
  show "count_token strict_tiktoken [\<lparr>role = User, content = ''hi''\<rparr>] = Inl ValueError"
    by (simp add: count_token_raises strict_tiktoken_def)
  show "count_token char_tiktoken [\<lparr>role = User, content = ''hi''\<rparr>] = Inl TypeError"
    by (simp add: count_token_raises char_tiktoken_def)
  show "count_token_spec char_encoding [\<lparr>role = User, content = ''hi''\<rparr>] = 8"
    by (simp add: count_token_spec_def char_encoding_def)
qed

text \<open>
  Claim C3: for every context, history, prompt and budget, the sequence that
  \<^verbatim>\<open>_truncate_history\<close> returns is a contiguous suffix of the input history, or empty.
  The code at a history of three messages with \<^verbatim>\<open>OPENAI_MAX_TOKENS = 30\<close>: no
  sequence is returned, for any tokenizer library; with a library that does not know the
  encoding name the call ends in \<^verbatim>\<open>ValueError\<close>.
\<close>

theorem truncate_history_over_budget_raises:
  "isl (returned (truncate_history tk (demo_settings\<lparr>OPENAI_MAX_TOKENS := Some 30\<rparr>) ''ctx'' 0
          ''bye''
          (caller_heap [\<lparr>role = User, content = ''hi''\<rparr>,
                        \<lparr>role = Assistant, content = ''hello''\<rparr>,
                        \<lparr>role = User, content = ''more''\<rparr>])))
   \<and> fst (truncate_history strict_tiktoken (demo_settings\<lparr>OPENAI_MAX_TOKENS := Some 30\<rparr>)
          ''ctx'' 0 ''bye''
          (caller_heap [\<lparr>role = User, content = ''hi''\<rparr>,
                        \<lparr>role = Assistant, content = ''hello''\<rparr>,
                        \<lparr>role = User, content = ''more''\<rparr>])) = Inl ValueError"
  by (simp add: returned_isl truncate_history_isl)
     (simp add: truncate_history_raises strict_tiktoken_def)

text \<open>
  Claim C4: for every context, history, prompt and budget, \<^verbatim>\<open>_truncate_history\<close>
  returns either a copy of the whole input history or the empty sequence.
  The code at a history of one message: what it gives is neither the copy nor the empty
  list, for any tokenizer library, since the first test of the loop raises.
\<close>

theorem truncate_history_neither_copy_nor_empty:
  "returned (truncate_history tk demo_settings ''ctx'' 0 ''bye''
      (caller_heap [\<lparr>role = User, content = ''hi''\<rparr>]))
     \<noteq> Inr [\<lparr>role = User, content = ''hi''\<rparr>]
   \<and> returned (truncate_history tk demo_settings ''ctx'' 0 ''bye''
        (caller_heap [\<lparr>role = User, content = ''hi''\<rparr>]))
     \<noteq> Inr []"
  by (simp add: returned_not_Inr truncate_history_isl)

text \<open>
  Claim C5: when \<^verbatim>\<open>OPENAI_KEY\<close> is not set, consuming \<^verbatim>\<open>make_response\<close> raises
  \<^verbatim>\<open>ValueError\<close> for every context, history and prompt. Nothing happened before: no
  client was built, no request was made, no chunk was yielded, and the store is as it
  was; the exception leaves the generator.
\<close>

theorem make_response_missing_key:
  "OPENAI_KEY s = None \<Longrightarrow>
   make_response tk s remote ctx history prompt h =
     (\<lparr>trace = [], outcome = Some ValueError\<rparr>, h)"
  by (simp add: make_response_def make_response_with_def api_key_def)

theorem make_response_missing_key_witness:
  "OPENAI_KEY (demo_settings\<lparr>OPENAI_KEY := None\<rparr>) = None
   \<and> make_response strict_tiktoken (demo_settings\<lparr>OPENAI_KEY := None\<rparr>) five_units ''ctx'' 0
         ''hi'' (caller_heap [\<lparr>role = User, content = ''hello''\<rparr>]) =
       (\<lparr>trace = [], outcome = Some ValueError\<rparr>,
        caller_heap [\<lparr>role = User, content = ''hello''\<rparr>])"
  using make_response_missing_key [of "demo_settings\<lparr>OPENAI_KEY := None\<rparr>" strict_tiktoken
      five_units "''ctx''" 0 "''hi''" "caller_heap [\<lparr>role = User, content = ''hello''\<rparr>]"]
  by simp


text \<open>
  Claim C7: \<^verbatim>\<open>get_model\<close> gives the stub adapter for \<^verbatim>\<open>"Stub"\<close>, the OpenAI adapter
  for \<^verbatim>\<open>"OpenAI"\<close>, \<^verbatim>\<open>None\<close> for every other value of \<^verbatim>\<open>LLM_MODEL\<close> (it does not
  raise), and the stub adapter when \<^verbatim>\<open>LLM_MODEL\<close> is not set.
\<close>

theorem get_model_resolves:
  "(LLM_MODEL s = Some ''Stub'' \<longrightarrow> get_model s = Some Stub)
   \<and> (LLM_MODEL s = Some ''OpenAI'' \<longrightarrow> get_model s = Some OpenAI)
   \<and> (LLM_MODEL s = Some v \<and> v \<noteq> ''Stub'' \<and> v \<noteq> ''OpenAI'' \<longrightarrow> get_model s = None)
   \<and> (LLM_MODEL s = None \<longrightarrow> get_model s = Some Stub)"
  by (simp add: get_model_def)

theorem get_model_resolves_witness:
  "get_model (demo_settings\<lparr>LLM_MODEL := Some ''Stub''\<rparr>) = Some Stub
   \<and> get_model demo_settings = Some OpenAI
   \<and> get_model (demo_settings\<lparr>LLM_MODEL := Some ''openai''\<rparr>) = None
   \<and> get_model (demo_settings\<lparr>LLM_MODEL := None\<rparr>) = Some Stub"
  using get_model_resolves [of "demo_settings\<lparr>LLM_MODEL := Some ''Stub''\<rparr>" "''Stub''"]
        get_model_resolves [of demo_settings "''OpenAI''"]
        get_model_resolves [of "demo_settings\<lparr>LLM_MODEL := Some ''openai''\<rparr>" "''openai''"]
        get_model_resolves [of "demo_settings\<lparr>LLM_MODEL := None\<rparr>" "''x''"]
  by (simp add: demo_settings_def)

text \<open>
  Claim C8: for every context, history and prompt \<^verbatim>\<open>Stub.make_response\<close> yields the two
  fragments \<^verbatim>\<open>"Hello "\<close> and \<^verbatim>\<open>"World!"\<close> in this order and ends normally; two
  calls give the same, whatever their arguments.
\<close>

theorem Stub_make_response_fixed:
  "chunks_of (trace (Stub_make_response ctx history prompt)) = [''Hello '', ''World!'']
   \<and> outcome (Stub_make_response ctx history prompt) = None
   \<and> Stub_make_response ctx history prompt = Stub_make_response ctx' history' prompt'"
  by (simp add: Stub_make_response_def)

text \<open>
  Claim C10: neither \<^verbatim>\<open>_truncate_history\<close> nor \<^verbatim>\<open>make_response\<close> changes the
  caller's history: for every tokenizer library, settings, provider, context, prompt and
  store, the list that the caller's reference stands for holds the same elements after
  the call as before it. The reference is one the store has given out.
\<close>

theorem history_not_mutated:
  "history < fresh h \<Longrightarrow>
   objs (snd (truncate_history tk s ctx history prompt h)) history = objs h history
   \<and> objs (snd (make_response tk s remote ctx history prompt h)) history = objs h history"
  by (simp add: truncate_history_def make_response_def truncate_with_frame
        make_response_with_frame)

theorem history_not_mutated_witness:
  "0 < fresh (caller_heap [\<lparr>role = User, content = ''hi''\<rparr>,
                           \<lparr>role = Assistant, content = ''hello''\<rparr>])
   \<and> objs (snd (truncate_history strict_tiktoken demo_settings ''ctx'' 0 ''bye''
        (caller_heap [\<lparr>role = User, content = ''hi''\<rparr>,
                      \<lparr>role = Assistant, content = ''hello''\<rparr>]))) 0
      = [\<lparr>role = User, content = ''hi''\<rparr>, \<lparr>role = Assistant, content = ''hello''\<rparr>]
   \<and> objs (snd (make_response strict_tiktoken demo_settings five_units ''ctx'' 0 ''bye''
        (caller_heap [\<lparr>role = User, content = ''hi''\<rparr>,
                      \<lparr>role = Assistant, content = ''hello''\<rparr>]))) 0
      = [\<lparr>role = User, content = ''hi''\<rparr>, \<lparr>role = Assistant, content = ''hello''\<rparr>]"
  using history_not_mutated [of 0
      "caller_heap [\<lparr>role = User, content = ''hi''\<rparr>, \<lparr>role = Assistant, content = ''hello''\<rparr>]"
      strict_tiktoken demo_settings "''ctx''" "''bye''" five_units]
  by (simp add: caller_heap_def)

end
